theory Spec2Isabelle
  imports Main
begin

section \<open>Strings as the Python code sees them\<close>

text \<open>
  Python strings are modelled as \<^typ>\<open>string\<close>, one \<^typ>\<open>char\<close> per code point; the
  model covers the code points below 256 (Latin-1). Whitespace is what \<^verbatim>\<open>str.isspace\<close>,
  \<^verbatim>\<open>str.strip\<close> and the regular expression class \<^verbatim>\<open>\s\<close> accept below 256: the code
  points 9 to 13, 28 to 32, 133 and 160. The digits that \<^verbatim>\<open>\d\<close>, \<^verbatim>\<open>int\<close> and \<^verbatim>\<open>Decimal\<close>
  accept below 256 are \<^verbatim>\<open>0\<close> to \<^verbatim>\<open>9\<close>.
\<close>

definition is_space :: "char \<Rightarrow> bool" where
  "is_space c = (of_char c \<in> {9::nat, 10, 11, 12, 13, 28, 29, 30, 31, 32, 133, 160})"

definition is_digit :: "char \<Rightarrow> bool" where
  "is_digit c = (c \<in> set ''0123456789'')"

text \<open>
  The cased letters below 256, as pairs of an upper-case and a lower-case letter: the ASCII
  letters, and the letters from 0xC0 to 0xDE (without the multiplication sign 0xD7) with
  their lower-case forms from 0xE0 to 0xFE (without the division sign 0xF7).
\<close>

definition upper_letters :: string where
  "upper_letters =
     ''ABCDEFGHIJKLMNOPQRSTUVWXYZ'' @
     [CHR 0xC0, CHR 0xC1, CHR 0xC2, CHR 0xC3, CHR 0xC4, CHR 0xC5, CHR 0xC6, CHR 0xC7,
      CHR 0xC8, CHR 0xC9, CHR 0xCA, CHR 0xCB, CHR 0xCC, CHR 0xCD, CHR 0xCE, CHR 0xCF,
      CHR 0xD0, CHR 0xD1, CHR 0xD2, CHR 0xD3, CHR 0xD4, CHR 0xD5, CHR 0xD6,
      CHR 0xD8, CHR 0xD9, CHR 0xDA, CHR 0xDB, CHR 0xDC, CHR 0xDD, CHR 0xDE]"

definition lower_letters :: string where
  "lower_letters =
     ''abcdefghijklmnopqrstuvwxyz'' @
     [CHR 0xE0, CHR 0xE1, CHR 0xE2, CHR 0xE3, CHR 0xE4, CHR 0xE5, CHR 0xE6, CHR 0xE7,
      CHR 0xE8, CHR 0xE9, CHR 0xEA, CHR 0xEB, CHR 0xEC, CHR 0xED, CHR 0xEE, CHR 0xEF,
      CHR 0xF0, CHR 0xF1, CHR 0xF2, CHR 0xF3, CHR 0xF4, CHR 0xF5, CHR 0xF6,
      CHR 0xF8, CHR 0xF9, CHR 0xFA, CHR 0xFB, CHR 0xFC, CHR 0xFD, CHR 0xFE]"

text \<open>
  \<^verbatim>\<open>str.lower\<close> maps each upper-case letter to its lower-case form and leaves every other
  code point below 256 as it is.
\<close>

definition char_lower :: "char \<Rightarrow> char" where
  "char_lower c =
     (case map_of (zip upper_letters lower_letters) c of Some l \<Rightarrow> l | None \<Rightarrow> c)"

definition lower :: "string \<Rightarrow> string" where
  "lower s = map char_lower s"

text \<open>
  \<^verbatim>\<open>str.upper\<close> maps each lower-case letter to its upper-case form and the sharp s (0xDF)
  to the two letters \<^verbatim>\<open>SS\<close>. Two code points below 256 have an upper-case form above 255:
  the micro sign 0xB5 (upper case U+039C) and the y with diaeresis 0xFF (upper case
  U+0178). No result of \<^verbatim>\<open>str.upper\<close> contains 0xB5 or 0xFF itself, so in a result of
  \<open>upper\<close> these two code points stand for U+039C and U+0178; every comparison of two
  results of \<open>upper\<close>, and of a result with a string of code points below 256, comes out as
  in Python. Every other code point below 256 is left as it is.
\<close>

definition char_upper :: "char \<Rightarrow> string" where
  "char_upper c =
     (if c = CHR 0xDF then ''SS''
      else (case map_of (zip lower_letters upper_letters) c of Some u \<Rightarrow> [u] | None \<Rightarrow> [c]))"

definition upper :: "string \<Rightarrow> string" where
  "upper s = concat (map char_upper s)"

text \<open>\<^verbatim>\<open>s.strip()\<close>: leading and trailing whitespace removed.\<close>

definition strip :: "string \<Rightarrow> string" where
  "strip s = rev (dropWhile is_space (rev (dropWhile is_space s)))"

text \<open>
  \<^verbatim>\<open>re.sub(r'\s+', ' ', s)\<close>: every maximal run of whitespace becomes one space. The
  flag says whether the previous character belonged to a run already replaced.
\<close>

fun collapse_ws :: "bool \<Rightarrow> string \<Rightarrow> string" where
  "collapse_ws inrun [] = []"
| "collapse_ws inrun (c # cs) =
     (if is_space c then (if inrun then collapse_ws True cs else CHR '' '' # collapse_ws True cs)
      else c # collapse_ws False cs)"

text \<open>\<^verbatim>\<open>needle in hay\<close> on strings, and \<^verbatim>\<open>hay.startswith(needle)\<close>.\<close>

fun starts_with :: "string \<Rightarrow> string \<Rightarrow> bool" where
  "starts_with hay [] = True"
| "starts_with [] (n # ns) = False"
| "starts_with (h # hs) (n # ns) = (h = n \<and> starts_with hs ns)"

fun contains :: "string \<Rightarrow> string \<Rightarrow> bool" where
  "contains [] needle = (needle = [])"
| "contains (h # hs) needle = (starts_with (h # hs) needle \<or> contains hs needle)"

text \<open>\<^verbatim>\<open>s.replace(c, '')\<close> for a one-character \<^verbatim>\<open>c\<close>.\<close>

definition remove_char :: "char \<Rightarrow> string \<Rightarrow> string" where
  "remove_char c s = filter (\<lambda>x. x \<noteq> c) s"

text \<open>Python truthiness of an optional string: \<^verbatim>\<open>None\<close> and \<^verbatim>\<open>''\<close> are false.\<close>

fun truthy :: "string option \<Rightarrow> bool" where
  "truthy None = False"
| "truthy (Some s) = (s \<noteq> [])"

text \<open>The exceptions the modelled code can raise.\<close>

datatype error =
    ValueError
  | OverflowError
  | InvalidOperation
  | IndexError
  | NameError string
  | HTTPStatusError

section \<open>The normalizer: \<^verbatim>\<open>backup/dcad/normalize.py\<close>\<close>

text \<open>\<^verbatim>\<open>clean_text(s) = re.sub(r'\s+', ' ', s or '').strip()\<close>\<close>

definition clean_text :: "string option \<Rightarrow> string" where
  "clean_text s = strip (collapse_ws False (case s of None \<Rightarrow> [] | Some t \<Rightarrow> t))"


section \<open>Search results: \<^verbatim>\<open>scraper/api/main.py\<close> and \<^verbatim>\<open>backup/dcad/search_address.py\<close>\<close>

text \<open>
  A result row is the dict \<^verbatim>\<open>_parse_results_table\<close> builds; \<^verbatim>\<open>row_type\<close> is its
  key \<^verbatim>\<open>type\<close>.
\<close>

record row =
  account_id :: string
  address :: string
  city :: string
  owner :: string
  total_value :: string
  row_type :: string
  detail_url :: string

text \<open>
  The tail of \<^verbatim>\<open>_search_address_paged\<close>:
  \<^verbatim>\<open>
    seen, uniq = set(), []
    for row in all_rows:
        acc = row.get("account_id")
        if acc and acc not in seen:
            uniq.append(row)
            seen.add(acc)
    return uniq
  \<close>
\<close>

fun dedupe_loop :: "string set \<Rightarrow> row list \<Rightarrow> row list \<Rightarrow> row list" where
  "dedupe_loop seen uniq [] = uniq"
| "dedupe_loop seen uniq (r # rs) =
     (let acc = account_id r in
      if acc \<noteq> [] \<and> acc \<notin> seen then dedupe_loop (insert acc seen) (uniq @ [r]) rs
      else dedupe_loop seen uniq rs)"

definition dedupe :: "row list \<Rightarrow> row list" where
  "dedupe all_rows = dedupe_loop {} [] all_rows"

text \<open>
  The tail of \<^verbatim>\<open>_find_results_rows\<close> in the backup copy; its rows carry the keys
  \<^verbatim>\<open>account_id, address, owner, city, zip\<close>, of which only the first matters here.
  \<^verbatim>\<open>
    seen = set()
    out = []
    for r in rows:
        if r["account_id"] in seen:
            continue
        seen.add(r["account_id"])
        out.append(r)
    return out
  \<close>
\<close>

fun backup_dedupe_loop :: "string set \<Rightarrow> row list \<Rightarrow> row list \<Rightarrow> row list" where
  "backup_dedupe_loop seen out [] = out"
| "backup_dedupe_loop seen out (r # rs) =
     (if account_id r \<in> seen then backup_dedupe_loop seen out rs
      else backup_dedupe_loop (insert (account_id r) seen) (out @ [r]) rs)"

definition backup_dedupe :: "row list \<Rightarrow> row list" where
  "backup_dedupe rows = backup_dedupe_loop {} [] rows"












text \<open>
  The rows a first-seen policy keeps, stated without a loop: a row is kept when its
  account id passes \<open>ok\<close> and no earlier row has that account id.
\<close>

fun first_seen :: "(string \<Rightarrow> bool) \<Rightarrow> string set \<Rightarrow> row list \<Rightarrow> row list" where
  "first_seen ok seen [] = []"
| "first_seen ok seen (r # rs) =
     (if ok (account_id r) \<and> account_id r \<notin> seen
      then r # first_seen ok (insert (account_id r) seen) rs
      else first_seen ok seen rs)"

definition first_occurrences :: "(string \<Rightarrow> bool) \<Rightarrow> row list \<Rightarrow> row list" where
  "first_occurrences ok rs =
     map snd (filter (\<lambda>(i, r). ok (account_id r) \<and> account_id r \<notin> account_id ` set (take i rs))
                     (zip [0..<length rs] rs))"

text \<open>Three result rows; the third repeats the account id of the first.\<close>

definition repeated_rows :: "row list" where
  "repeated_rows =
     [\<lparr>account_id = ''00000776533000000'', address = ''100 MAIN ST'', city = ''DALLAS'',
       owner = ''DOE JOHN'', total_value = ''$100,000'', row_type = ''RESIDENTIAL'',
       detail_url = ''https://www.dallascad.org/AcctDetailRes.aspx?ID=00000776533000000''\<rparr>,
      \<lparr>account_id = ''00000776533000001'', address = ''102 MAIN ST'', city = ''DALLAS'',
       owner = ''ROE JANE'', total_value = ''$120,000'', row_type = ''RESIDENTIAL'',
       detail_url = ''https://www.dallascad.org/AcctDetailRes.aspx?ID=00000776533000001''\<rparr>,
      \<lparr>account_id = ''00000776533000000'', address = ''100 MAIN STREET'', city = ''DALLAS'',
       owner = ''DOE JOHN'', total_value = ''$100,000'', row_type = ''RESIDENTIAL'',
       detail_url = ''https://www.dallascad.org/AcctDetailRes.aspx?id=00000776533000000''\<rparr>]"

section \<open>Yes/no flags: \<^verbatim>\<open>map_yn_to_none\<close> of \<^verbatim>\<open>scraper/dcad/parse_detail.py\<close>\<close>

text \<open>
  \<^verbatim>\<open>
    def map_yn_to_none(s: str | None) -> str:
        if s is None:
            return "N/A"
        val = clean_text(s).upper()
        if val in {"N","NO","FALSE","NONE","UNASSIGNED",""}:
            return "NONE"
        if val in {"Y","YES","TRUE","1"}:
            return "Y"
        return val or "N/A"
  \<close>
\<close>

definition map_yn_to_none :: "string option \<Rightarrow> string" where
  "map_yn_to_none s =
     (case s of
        None \<Rightarrow> ''N/A''
      | Some t \<Rightarrow>
          (let val = upper (clean_text (Some t)) in
           if val \<in> {''N'', ''NO'', ''FALSE'', ''NONE'', ''UNASSIGNED'', ''''} then ''NONE''
           else if val \<in> {''Y'', ''YES'', ''TRUE'', ''1''} then ''Y''
           else if val \<noteq> [] then val else ''N/A''))"





section \<open>Primary improvement areas: \<^verbatim>\<open>dcad-scraper/scraper/dcad/parse_detail.py\<close>\<close>

text \<open>
  \<^verbatim>\<open>int(cleaned)\<close> on a string that holds only digits and minus signs (what is left
  after \<^verbatim>\<open>re.sub(r"[^\d\-]", "", s)\<close>): it succeeds on a non-empty run of digits with an
  optional minus sign in front and raises \<^verbatim>\<open>ValueError\<close>, here \<open>None\<close>, otherwise.
\<close>

definition digit_val :: "char \<Rightarrow> nat" where
  "digit_val c = of_char c - 48"

definition nat_of_digits :: "string \<Rightarrow> nat" where
  "nat_of_digits ds = foldl (\<lambda>a c. 10 * a + digit_val c) 0 ds"














section \<open>HTML documents as BeautifulSoup sees them\<close>

text \<open>
  A parsed document is a tree of text nodes and elements (tag name, attributes, children).
  \<^verbatim>\<open>get_text()\<close> joins the text nodes below a node; \<^verbatim>\<open>find_all(names)\<close> lists the
  descendants with one of the tag names in document order; \<^verbatim>\<open>find(names)\<close> is the
  first of them; \<^verbatim>\<open>find_all(names, recursive=False)\<close> looks at the children only.
  Which table a section locator finds (\<^verbatim>\<open>_find_after_header_span\<close>,
  \<^verbatim>\<open>_table_after_heading\<close>, a lookup by id) is an input of the extractors below.
\<close>

datatype node = Text string | Elem string "(string \<times> string) list" "node list"

fun get_text :: "node \<Rightarrow> string" where
  "get_text (Text s) = s"
| "get_text (Elem name attrs children) = concat (map get_text children)"

fun descendants :: "node \<Rightarrow> node list" where
  "descendants (Text s) = []"
| "descendants (Elem name attrs children) = concat (map (\<lambda>c. c # descendants c) children)"

fun children_of :: "node \<Rightarrow> node list" where
  "children_of (Text s) = []"
| "children_of (Elem name attrs children) = children"

fun is_tag :: "string list \<Rightarrow> node \<Rightarrow> bool" where
  "is_tag names (Text s) = False"
| "is_tag names (Elem name attrs children) = (name \<in> set names)"

definition find_all :: "string list \<Rightarrow> node \<Rightarrow> node list" where
  "find_all names n = filter (is_tag names) (descendants n)"

definition find_first :: "string list \<Rightarrow> node \<Rightarrow> node option" where
  "find_first names n = (case find_all names n of [] \<Rightarrow> None | x # rest \<Rightarrow> Some x)"

definition find_children :: "string list \<Rightarrow> node \<Rightarrow> node list" where
  "find_children names n = filter (is_tag names) (children_of n)"

text \<open>\<^verbatim>\<open>clean_text(c.get_text())\<close>\<close>

definition cell_text :: "node \<Rightarrow> string" where
  "cell_text n = clean_text (Some (get_text n))"

text \<open>Cells, rows and tables without attributes, for the examples.\<close>

definition td :: "string \<Rightarrow> node" where
  "td s = Elem ''td'' [] [Text s]"

definition th :: "string \<Rightarrow> node" where
  "th s = Elem ''th'' [] [Text s]"

definition tr :: "node list \<Rightarrow> node" where
  "tr cells = Elem ''tr'' [] cells"

section \<open>Estimated taxes and exemptions: \<^verbatim>\<open>scraper/dcad/parse_detail.py\<close>\<close>

text \<open>
  \<^verbatim>\<open>
    def _num_or_na(text, default="N/A"):
        if text is None:
            return default
        t = clean_text(text)
        return t or default
  \<close>
\<close>

definition num_or_na :: "string option \<Rightarrow> string" where
  "num_or_na t =
     (case t of
        None \<Rightarrow> ''N/A''
      | Some s \<Rightarrow> (let c = clean_text (Some s) in if c \<noteq> [] then c else ''N/A''))"

text \<open>One entry of the estimated-taxes map.\<close>

record bucket =
  taxing_unit :: string
  tax_rate_per_100 :: string
  taxable_value :: string
  estimated_taxes :: string
  tax_ceiling :: string

text \<open>
  \<^verbatim>\<open>
    def bucket_for(label):
        lab = (label or "").lower()
        if "school" in lab or "isd" in lab: return "school"
        if "college" in lab: return "college"
        if "hospital" in lab: return "hospital"
        if "county" in lab: return "county"
        if "special" in lab: return "special_district"
        return "city"
  \<close>
\<close>

definition bucket_for :: "string \<Rightarrow> string" where
  "bucket_for label =
     (let lab = lower label in
      if contains lab ''school'' \<or> contains lab ''isd'' then ''school''
      else if contains lab ''college'' then ''college''
      else if contains lab ''hospital'' then ''hospital''
      else if contains lab ''county'' then ''county''
      else if contains lab ''special'' then ''special_district''
      else ''city'')"

text \<open>\<^verbatim>\<open>xs[i] if i < len(xs) else d\<close>\<close>

definition nth_or :: "string list \<Rightarrow> nat \<Rightarrow> string \<Rightarrow> string" where
  "nth_or xs i d = (if i < length xs then xs ! i else d)"

text \<open>\<^verbatim>\<open>rows = [r for r in tbl.find_all("tr") if r.find_all(["th","td"])]\<close>\<close>

definition est_rows :: "node \<Rightarrow> node list" where
  "est_rows tbl = filter (\<lambda>r. find_all [''th'', ''td''] r \<noteq> []) (find_all [''tr''] tbl)"

text \<open>
  One iteration of the loop over \<^verbatim>\<open>rows[1:]\<close>, on the state
  \<^verbatim>\<open>(named_rows, total_line_str)\<close>:
  \<^verbatim>\<open>
    th = r.find("th")
    label = clean_text(th.get_text()) if th else ""
    tds = [clean_text(td.get_text()) for td in r.find_all("td")]
    flat = clean_text(r.get_text())
    if "total estimated taxes" in flat.lower():
        if not total_line_str:
            last_cell = (r.find_all("td") or r.find_all("th"))[-1]
            total_line_str = clean_text(last_cell.get_text())
        continue
    if label:
        named_rows[label.upper()] = tds
  \<close>
  The index \<^verbatim>\<open>[-1]\<close> raises \<^verbatim>\<open>IndexError\<close> on an empty list.
\<close>

definition est_row_step ::
  "node \<Rightarrow> (string \<rightharpoonup> string list) \<times> string option
     \<Rightarrow> error + (string \<rightharpoonup> string list) \<times> string option" where
  "est_row_step r st =
     (let named_rows = fst st;
          total_line_str = snd st;
          label = (case find_first [''th''] r of None \<Rightarrow> [] | Some h \<Rightarrow> cell_text h);
          tds = map cell_text (find_all [''td''] r);
          flat = clean_text (Some (get_text r))
      in if contains (lower flat) ''total estimated taxes'' then
           (if \<not> truthy total_line_str then
              (case rev (if find_all [''td''] r \<noteq> [] then find_all [''td''] r
                         else find_all [''th''] r) of
                 [] \<Rightarrow> Inl IndexError
               | last_cell # before \<Rightarrow> Inr (named_rows, Some (cell_text last_cell)))
            else Inr st)
         else if label \<noteq> [] then Inr (named_rows(upper label \<mapsto> tds), total_line_str)
         else Inr st)"

fun est_named_rows ::
  "node list \<Rightarrow> (string \<rightharpoonup> string list) \<times> string option
     \<Rightarrow> error + (string \<rightharpoonup> string list) \<times> string option" where
  "est_named_rows [] st = Inr st"
| "est_named_rows (r # rs) st =
     (case est_row_step r st of Inl e \<Rightarrow> Inl e | Inr st' \<Rightarrow> est_named_rows rs st')"

text \<open>
  \<^verbatim>\<open>
    def row_vals(*names):
        for n in names:
            v = named_rows.get(n.upper())
            if v:
                return v
        return []
  \<close>
\<close>

fun row_vals :: "(string \<rightharpoonup> string list) \<Rightarrow> string list \<Rightarrow> string list" where
  "row_vals named_rows [] = []"
| "row_vals named_rows (n # ns) =
     (case named_rows (upper n) of
        None \<Rightarrow> row_vals named_rows ns
      | Some v \<Rightarrow> if v \<noteq> [] then v else row_vals named_rows ns)"

definition na_bucket :: bucket where
  "na_bucket = \<lparr>taxing_unit = ''N/A'', tax_rate_per_100 = ''N/A'', taxable_value = ''N/A'',
                 estimated_taxes = ''N/A'', tax_ceiling = ''N/A''\<rparr>"

definition canonical_jurisdictions :: "string list" where
  "canonical_jurisdictions =
     [''city'', ''school'', ''county'', ''college'', ''hospital'', ''special_district'']"

text \<open>
  \<^verbatim>\<open>
    for k in ("city","school","county","college","hospital","special_district"):
        if k not in buckets:
            buckets[k] = {"taxing_unit":"N/A", ... ,"tax_ceiling":"N/A"}
  \<close>
\<close>

definition fill_missing :: "(string \<rightharpoonup> bucket) \<Rightarrow> (string \<rightharpoonup> bucket)" where
  "fill_missing buckets =
     foldl (\<lambda>b k. if k \<in> dom b then b else b(k \<mapsto> na_bucket)) buckets canonical_jurisdictions"

text \<open>
  The loop \<^verbatim>\<open>for idx, col in enumerate(col_headers): b = bucket_for(col); buckets[b] = {...}\<close>
  over the rows looked up by name.
\<close>

definition est_buckets :: "(string \<rightharpoonup> string list) \<Rightarrow> string list \<Rightarrow> (string \<rightharpoonup> bucket)" where
  "est_buckets named_rows col_headers =
     (let taxing_j = row_vals named_rows [''TAXING JURISDICTION''];
          rate_per_100 = row_vals named_rows
             [''TAX RATE PER $100'', ''TAX RATE PER $100.00'', ''TAX RATE''];
          taxable = row_vals named_rows [''TAXABLE VALUE'', ''TAXABLE VALUES''];
          est_taxes = row_vals named_rows [''ESTIMATED TAXES'', ''ESTIMATED TAX''];
          ceilings = row_vals named_rows [''TAX CEILING'', ''TAX CEILINGS'']
      in foldl (\<lambda>buckets (idx, col).
                  buckets(bucket_for col \<mapsto>
                    \<lparr>taxing_unit = nth_or taxing_j idx ''N/A'',
                     tax_rate_per_100 = nth_or rate_per_100 idx ''N/A'',
                     taxable_value = nth_or taxable idx ''N/A'',
                     estimated_taxes = nth_or est_taxes idx ''N/A'',
                     tax_ceiling = nth_or ceilings idx ''N/A''\<rparr>))
               Map.empty (zip [0..<length col_headers] col_headers))"

text \<open>\<^verbatim>\<open>col_headers = header_cells[1:]\<close> of the first row, when the table has three rows.\<close>

definition est_col_headers :: "node \<Rightarrow> string list" where
  "est_col_headers tbl =
     (case est_rows tbl of
        r0 # r1 # r2 # others \<Rightarrow> tl (map cell_text (find_all [''th'', ''td''] r0))
      | fewer \<Rightarrow> [])"

text \<open>
  \<^verbatim>\<open>parse_estimated_taxes(soup)\<close>. \<open>tbl\<close> is the table found by
  \<^verbatim>\<open>_find_after_header_span(soup, "lblesttax") or _table_after_heading(soup, "estimated taxes")\<close>
  and \<open>total_span\<close> the element \<^verbatim>\<open>#TaxEst1_lblTotalTax\<close>, each \<open>None\<close> when the page has
  none. The two early returns are
  \<^verbatim>\<open>
    if not tbl:
        return {}, "N/A", "OK"
    rows = [...]
    if len(rows) < 3:
        return {}, "N/A", "OK"
  \<close>
\<close>

definition parse_estimated_taxes ::
  "node option \<Rightarrow> node option \<Rightarrow> error + (string \<rightharpoonup> bucket) \<times> string \<times> string" where
  "parse_estimated_taxes tbl total_span =
     (case tbl of
        None \<Rightarrow> Inr (Map.empty, ''N/A'', ''OK'')
      | Some t \<Rightarrow>
          (case est_rows t of
             r0 # r1 # r2 # others \<Rightarrow>
               (let total_line_str =
                      (case total_span of None \<Rightarrow> None | Some sp \<Rightarrow> Some (cell_text sp));
                    col_headers = tl (map cell_text (find_all [''th'', ''td''] r0))
                in case est_named_rows (r1 # r2 # others) (Map.empty, total_line_str) of
                     Inl e \<Rightarrow> Inl e
                   | Inr (named_rows, total_line_str) \<Rightarrow>
                       Inr (fill_missing (est_buckets named_rows col_headers),
                            num_or_na total_line_str, ''OK''))
           | fewer \<Rightarrow> Inr (Map.empty, ''N/A'', ''OK'')))"

text \<open>One entry of the exemptions map.\<close>

record exemption =
  ex_taxing_jurisdiction :: string
  ex_homestead_exemption :: string
  ex_taxable_value :: string

text \<open>\<^verbatim>\<open>s or "N/A"\<close>\<close>

definition or_na :: "string \<Rightarrow> string" where
  "or_na s = (if s \<noteq> [] then s else ''N/A'')"

text \<open>
  \<^verbatim>\<open>
    headers = [clean_text(th.get_text()) for th in ex_tbl.find_all("th")]
    if not any(str(h).lower() == "city" for h in headers):
        nested = ex_tbl.find("table")
        if nested:
            ex_tbl = nested
  \<close>
\<close>

definition exemption_table :: "node \<Rightarrow> node" where
  "exemption_table ex_tbl =
     (let headers = map cell_text (find_all [''th''] ex_tbl) in
      if \<not> list_ex (\<lambda>h. lower h = ''city'') headers then
        (case find_first [''table''] ex_tbl of None \<Rightarrow> ex_tbl | Some nested \<Rightarrow> nested)
      else ex_tbl)"

text \<open>\<^verbatim>\<open>"taxable value" in clean_text(el.get_text()).lower()\<close>\<close>

definition mentions_taxable_value :: "node \<Rightarrow> bool" where
  "mentions_taxable_value n = contains (lower (cell_text n)) ''taxable value''"

text \<open>
  The search for the third value row: the first of \<^verbatim>\<open>rows[3:]\<close> that mentions the
  taxable value; failing that, the \<^verbatim>\<open>td\<close> siblings after the first \<^verbatim>\<open>th\<close> child of
  the table that does. The walk \<^verbatim>\<open>while sib: ... sib = sib.next_sibling\<close> ends at the
  last sibling or at an empty text node, which is false in Python.
\<close>

fun siblings_after_taxable_th :: "node list \<Rightarrow> node list option" where
  "siblings_after_taxable_th [] = None"
| "siblings_after_taxable_th (c # cs) =
     (if is_tag [''th''] c \<and> mentions_taxable_value c then Some cs
      else siblings_after_taxable_th cs)"

definition exemption_row3 :: "node \<Rightarrow> node list \<Rightarrow> string list option" where
  "exemption_row3 ex_tbl later_rows =
     (case filter mentions_taxable_value later_rows of
        r # rest \<Rightarrow> Some (map cell_text (find_all [''td''] r))
      | [] \<Rightarrow>
          (case siblings_after_taxable_th (children_of ex_tbl) of
             None \<Rightarrow> None
           | Some sibs \<Rightarrow>
               Some (map cell_text
                      (filter (is_tag [''td'']) (takeWhile (\<lambda>sib. sib \<noteq> Text []) sibs)))))"

text \<open>\<^verbatim>\<open>key = str(col).lower().replace(" ","_")\<close>\<close>

definition exemption_key :: "string \<Rightarrow> string" where
  "exemption_key col = map (\<lambda>c. if c = CHR '' '' then CHR ''_'' else c) (lower col)"

text \<open>
  \<^verbatim>\<open>
    out = {}
    for idx, col in enumerate(col_headers):
        key = str(col).lower().replace(" ","_")
        tj = row1[idx] if idx < len(row1) else "N/A"
        he = row2[idx] if idx < len(row2) else "N/A"
        tv = row3[idx] if (row3 is not None and idx < len(row3)) else "N/A"
        out[key] = {"taxing_jurisdiction": tj or "N/A", "homestead_exemption": he or "N/A",
                    "taxable_value": tv or "N/A"}
    return out
  \<close>
\<close>

definition exemption_out ::
  "string list \<Rightarrow> string list \<Rightarrow> string list \<Rightarrow> string list option \<Rightarrow> (string \<rightharpoonup> exemption)" where
  "exemption_out col_headers row1 row2 row3 =
     foldl (\<lambda>out (idx, col).
              out(exemption_key col \<mapsto>
                \<lparr>ex_taxing_jurisdiction = or_na (nth_or row1 idx ''N/A''),
                 ex_homestead_exemption = or_na (nth_or row2 idx ''N/A''),
                 ex_taxable_value =
                   or_na (case row3 of None \<Rightarrow> ''N/A'' | Some r3 \<Rightarrow> nth_or r3 idx ''N/A'')\<rparr>))
           Map.empty (zip [0..<length col_headers] col_headers)"

definition exemption_col_headers :: "node \<Rightarrow> string list" where
  "exemption_col_headers found =
     (case find_all [''tr''] (exemption_table found) of
        r0 # r1 # r2 # later_rows \<Rightarrow> tl (map cell_text (find_all [''th'', ''td''] r0))
      | fewer \<Rightarrow> [])"

text \<open>
  \<^verbatim>\<open>parse_exemptions_sections(soup)\<close>; \<open>located\<close> is the table found by
  \<^verbatim>\<open>_find_after_header_span(soup, "lblexempt") or _table_after_heading(soup, "exemptions")\<close>.
  Without a table, or with fewer than three rows, it returns the empty dict.
\<close>

definition parse_exemptions_sections :: "node option \<Rightarrow> (string \<rightharpoonup> exemption)" where
  "parse_exemptions_sections located =
     (case located of
        None \<Rightarrow> Map.empty
      | Some found \<Rightarrow>
          (let ex_tbl = exemption_table found in
           case find_all [''tr''] ex_tbl of
             r0 # r1 # r2 # later_rows \<Rightarrow>
               exemption_out (tl (map cell_text (find_all [''th'', ''td''] r0)))
                 (map cell_text (find_all [''td''] r1))
                 (map cell_text (find_all [''td''] r2))
                 (exemption_row3 ex_tbl later_rows)
           | fewer \<Rightarrow> Map.empty))"

text \<open>Two example tables, each with the columns of two jurisdictions.\<close>

definition two_column_exemptions :: node where
  "two_column_exemptions =
     Elem ''table'' []
       [tr [th [], th ''City'', th ''School''],
        tr [th ''Taxing Jurisdiction'', td ''DALLAS'', td ''DALLAS ISD''],
        tr [th ''HOMESTEAD EXEMPTION'', td ''$60,000'', td ''$100,000''],
        tr [th ''Taxable Value'', td ''$240,000'', td ''$200,000'']]"

definition two_column_estimated_taxes :: node where
  "two_column_estimated_taxes =
     Elem ''table'' []
       [tr [th [], th ''City'', th ''School''],
        tr [th ''Taxing Jurisdiction'', td ''DALLAS'', td ''DALLAS ISD''],
        tr [th ''Tax Rate per $100'', td ''0.7357'', td ''1.013835''],
        tr [th ''Taxable Value'', td ''$240,000'', td ''$200,000''],
        tr [th ''Estimated Taxes'', td ''$1,765.68'', td ''$2,027.67''],
        tr [th ''Tax Ceiling'', td ''N/A'', td ''N/A''],
        tr [th ''Total Estimated Taxes:'', td ''$3,793.35'']]"

section \<open>Numbers: \<^verbatim>\<open>to_num\<close> and its relatives in \<^verbatim>\<open>backup/dcad/normalize.py\<close>\<close>

text \<open>
  A value of Python's \<^verbatim>\<open>decimal.Decimal\<close>: a finite number with a sign, a coefficient
  and an exponent (the number is the coefficient times ten to the exponent), an infinity
  with a sign, or a NaN (of which the sign, the payload and the signalling flag are not
  kept).
\<close>

datatype decimal = Finite bool nat int | Infinity bool | NaN

text \<open>
  \<^verbatim>\<open>Decimal(s)\<close> for a string: leading and trailing whitespace and all underscores are
  dropped; what is left must be an optional sign followed by digits with an optional
  decimal point and an optional exponent (at least one digit before the exponent), or by
  \<^verbatim>\<open>Inf\<close>, \<^verbatim>\<open>Infinity\<close>, \<^verbatim>\<open>NaN\<close> or \<^verbatim>\<open>sNaN\<close> with optional digits, in any letter
  case. Any other string raises \<^verbatim>\<open>InvalidOperation\<close>, which is \<open>None\<close> here.
\<close>

fun split_sign :: "string \<Rightarrow> bool \<times> string" where
  "split_sign [] = (False, [])"
| "split_sign (c # cs) =
     (if c = CHR ''-'' then (True, cs) else if c = CHR ''+'' then (False, cs) else (False, c # cs))"

definition parse_exponent :: "string \<Rightarrow> int option" where
  "parse_exponent s =
     (let (neg, ds) = split_sign s in
      if ds \<noteq> [] \<and> list_all is_digit ds
      then Some (if neg then - int (nat_of_digits ds) else int (nat_of_digits ds))
      else None)"

definition parse_finite :: "bool \<Rightarrow> string \<Rightarrow> decimal option" where
  "parse_finite neg u =
     (let ip = takeWhile is_digit u;
          r1 = dropWhile is_digit u;
          has_point = (r1 \<noteq> [] \<and> hd r1 = CHR ''.'');
          fp = (if has_point then takeWhile is_digit (tl r1) else []);
          r2 = (if has_point then dropWhile is_digit (tl r1) else r1)
      in if ip = [] \<and> fp = [] then None
         else if r2 = [] then Some (Finite neg (nat_of_digits (ip @ fp)) (- int (length fp)))
         else if hd r2 = CHR ''e'' \<or> hd r2 = CHR ''E'' then
           (case parse_exponent (tl r2) of
              None \<Rightarrow> None
            | Some e \<Rightarrow> Some (Finite neg (nat_of_digits (ip @ fp)) (e - int (length fp))))
         else None)"

definition is_nan_literal :: "string \<Rightarrow> bool" where
  "is_nan_literal u =
     (let l = lower u;
          r = (if l \<noteq> [] \<and> hd l = CHR ''s'' then tl l else l)
      in starts_with r ''nan'' \<and> list_all is_digit (drop 3 r))"

definition py_decimal :: "string \<Rightarrow> decimal option" where
  "py_decimal s =
     (let (neg, u) = split_sign (remove_char CHR ''_'' (strip s)) in
      if lower u = ''inf'' \<or> lower u = ''infinity'' then Some (Infinity neg)
      else if is_nan_literal u then Some NaN
      else parse_finite neg u)"

text \<open>
  \<^verbatim>\<open>
    def to_num(s):
        s = clean_text(s).replace(',', '').replace('%', '')
        if s.lower() in {'', 'n/a', 'na', '-', 'none'}: return None
        try: return Decimal(s)
        except: return None
  \<close>
\<close>

definition to_num :: "string option \<Rightarrow> decimal option" where
  "to_num s =
     (let t = remove_char CHR ''%'' (remove_char CHR '','' (clean_text s)) in
      if lower t \<in> {'''', ''n/a'', ''na'', ''-'', ''none''} then None else py_decimal t)"

text \<open>
  \<^verbatim>\<open>s.replace(needle, '')\<close> for a non-empty \<^verbatim>\<open>needle\<close>: the occurrences are removed
  from left to right without overlap. The counter says how many characters of an
  occurrence that was found are still to be skipped.
\<close>

fun remove_sub :: "nat \<Rightarrow> string \<Rightarrow> string \<Rightarrow> string" where
  "remove_sub k needle [] = []"
| "remove_sub k needle (c # cs) =
     (if 0 < k then remove_sub (k - 1) needle cs
      else if needle \<noteq> [] \<and> starts_with (c # cs) needle
      then remove_sub (length needle - 1) needle cs
      else c # remove_sub 0 needle cs)"

text \<open>
  \<^verbatim>\<open>
    def to_sqft(s):
        s = clean_text(s).lower().replace('sqft', '').replace('sf', ''); return to_num(s)
    def pct_to_num(s): s = clean_text(s).replace('%', ''); return to_num(s)
  \<close>
\<close>

definition to_sqft :: "string option \<Rightarrow> decimal option" where
  "to_sqft s = to_num (Some (remove_sub 0 ''sf'' (remove_sub 0 ''sqft'' (lower (clean_text s)))))"

definition pct_to_num :: "string option \<Rightarrow> decimal option" where
  "pct_to_num s = to_num (Some (remove_char CHR ''%'' (clean_text s)))"


section \<open>Key/value tables and the main improvement: \<^verbatim>\<open>scraper/dcad/parse_detail.py\<close>\<close>

text \<open>
  The module imports \<^verbatim>\<open>clean_text, to_bool, to_num, to_sqft, pct_to_num\<close> from its
  sibling \<^verbatim>\<open>normalize\<close>; the definitions above, taken from
  \<^verbatim>\<open>backup/dcad/normalize.py\<close>, stand for that module.

  \<^verbatim>\<open>out.setdefault(k, v)\<close>: the first value stored for a key stays.
\<close>

definition setdefault :: "(string \<rightharpoonup> string) \<Rightarrow> string \<Rightarrow> string \<Rightarrow> (string \<rightharpoonup> string)" where
  "setdefault out k v = (case out k of None \<Rightarrow> out(k \<mapsto> v) | Some old \<Rightarrow> out)"

text \<open>
  \<^verbatim>\<open>tr.find_all(class_=re.compile(pattern, re.I))\<close> for a pattern that is an alternative of
  plain words: the descendants whose \<^verbatim>\<open>class\<close> attribute contains one of the words,
  whatever the letter case.
\<close>

definition class_of :: "node \<Rightarrow> string" where
  "class_of n = (case n of Text s \<Rightarrow> [] | Elem name attrs children \<Rightarrow>
                   (case map_of attrs ''class'' of None \<Rightarrow> [] | Some c \<Rightarrow> c))"

definition find_all_class :: "string list \<Rightarrow> node \<Rightarrow> node list" where
  "find_all_class keywords n =
     filter (\<lambda>d. list_ex (\<lambda>w. contains (lower (class_of d)) w) keywords) (descendants n)"

text \<open>
  \<^verbatim>\<open>[p.strip() for p in re.split(r"\s*:\s*", text, maxsplit=1)]\<close> for a text with a colon:
  the part before the first colon and the part after it, both stripped.
\<close>

definition split_colon :: "string \<Rightarrow> string \<times> string" where
  "split_colon t =
     (strip (takeWhile (\<lambda>c. c \<noteq> CHR '':'') t),
      strip (tl (dropWhile (\<lambda>c. c \<noteq> CHR '':'') t)))"

text \<open>
  The loop \<^verbatim>\<open>for i in range(0, len(texts) - 1, 2)\<close> over successive pairs of cells:
  \<^verbatim>\<open>
    k = texts[i].lower()
    v = texts[i+1] if i+1 < len(texts) else ""
    if k:
        out.setdefault(k, v)
  \<close>
  A last cell without a partner is not visited.
\<close>

fun pair_cells :: "(string \<rightharpoonup> string) \<Rightarrow> string list \<Rightarrow> (string \<rightharpoonup> string)" where
  "pair_cells out (k # v # rest) =
     pair_cells (if lower k \<noteq> [] then setdefault out (lower k) v else out) rest"
| "pair_cells out short = out"

text \<open>
  The loop over \<^verbatim>\<open>zip(labels, values)\<close>:
  \<^verbatim>\<open>
    lk = clean_text(L.get_text()).lower()
    vv = clean_text(V.get_text())
    if lk:
        out.setdefault(lk, vv)
  \<close>
\<close>

fun pair_classes :: "(string \<rightharpoonup> string) \<Rightarrow> (node \<times> node) list \<Rightarrow> (string \<rightharpoonup> string)" where
  "pair_classes out [] = out"
| "pair_classes out ((l, v) # rest) =
     pair_classes (if lower (cell_text l) \<noteq> []
                   then setdefault out (lower (cell_text l)) (cell_text v) else out) rest"

text \<open>
  One row of \<^verbatim>\<open>parse_keyvalue_table\<close>:
  \<^verbatim>\<open>
    cells = tr.find_all(["td","th"])
    texts = [clean_text(c.get_text()) for c in cells]
    texts = [t for t in texts if t]
    if not texts:
        continue
    if len(texts) == 1 and ":" in texts[0]:
        parts = [p.strip() for p in re.split(r"\s*:\s*", texts[0], maxsplit=1)]
        if len(parts) == 2 and parts[0]:
            out.setdefault(parts[0].lower(), parts[1])
        continue
    if len(texts) == 2:
        k, v = texts[0].lower(), texts[1]
        if k:
            out.setdefault(k, v)
    elif len(texts) > 2:
        labels = [c for c in tr.find_all(class_=re.compile(r"(FieldName|FieldLabel)", re.I))]
        values = [c for c in tr.find_all(class_=re.compile(r"(FieldValue|FieldVal)", re.I))]
        if labels and values and len(labels) == len(values):
            for L, V in zip(labels, values): ...
        else:
            for i in range(0, len(texts) - 1, 2): ...
  \<close>
\<close>

definition keyvalue_row :: "(string \<rightharpoonup> string) \<Rightarrow> node \<Rightarrow> (string \<rightharpoonup> string)" where
  "keyvalue_row out r =
     (let texts = filter (\<lambda>t. t \<noteq> []) (map cell_text (find_all [''td'', ''th''] r)) in
      if texts = [] then out
      else if length texts = 1 \<and> CHR '':'' \<in> set (hd texts) then
        (let parts = split_colon (hd texts) in
         if fst parts \<noteq> [] then setdefault out (lower (fst parts)) (snd parts) else out)
      else if length texts = 2 then pair_cells out texts
      else if 2 < length texts then
        (let labels = find_all_class [''fieldname'', ''fieldlabel''] r;
             vals = find_all_class [''fieldvalue'', ''fieldval''] r
         in if labels \<noteq> [] \<and> vals \<noteq> [] \<and> length labels = length vals
            then pair_classes out (zip labels vals)
            else pair_cells out texts)
      else out)"

definition parse_keyvalue_table :: "node \<Rightarrow> (string \<rightharpoonup> string)" where
  "parse_keyvalue_table tbl = foldl keyvalue_row Map.empty (find_all [''tr''] tbl)"

text \<open>
  \<^verbatim>\<open>
    def get_any(kv, *keys):
        for k in keys:
            if k in kv and kv[k]:
                return kv[k]
        return ""
  \<close>
\<close>

fun get_any :: "(string \<rightharpoonup> string) \<Rightarrow> string list \<Rightarrow> string" where
  "get_any kv [] = []"
| "get_any kv (k # ks) =
     (case kv k of None \<Rightarrow> get_any kv ks | Some v \<Rightarrow> if v \<noteq> [] then v else get_any kv ks)"

text \<open>\<^verbatim>\<open>g = lambda k: kv.get(k, "")\<close>\<close>

definition kv_get :: "(string \<rightharpoonup> string) \<Rightarrow> string \<Rightarrow> string" where
  "kv_get kv k = (case kv k of None \<Rightarrow> [] | Some v \<Rightarrow> v)"

text \<open>\<^verbatim>\<open>v if v != "" else None\<close> for a text value of the record.\<close>

definition none_if_empty :: "string \<Rightarrow> string option" where
  "none_if_empty v = (if v \<noteq> [] then Some v else None)"

text \<open>
  The keys of the record of \<^verbatim>\<open>parse_main_improvement\<close> that are read from the table
  with \<^verbatim>\<open>get_any\<close>, \<^verbatim>\<open>g\<close>, \<^verbatim>\<open>to_num\<close>, \<^verbatim>\<open>to_sqft\<close>, \<^verbatim>\<open>pct_to_num\<close> and
  \<^verbatim>\<open>map_yn_to_none\<close>. The keys for the age, the stories and the bathrooms, which go
  through further regular expressions, and the keys computed like \<^verbatim>\<open>construction_type\<close>
  or \<^verbatim>\<open>pool\<close> below are computed each from the table alone and are left out.
\<close>

record main_improvement =
  mi_building_class :: "string option"
  mi_year_built :: "decimal option"
  mi_effective_year_built :: "decimal option"
  mi_desirability :: "string option"
  mi_desirability_raw :: "string option"
  mi_desirability_id :: "decimal option"
  mi_living_area_sqft :: "decimal option"
  mi_total_living_area :: "decimal option"
  mi_total_area_sqft :: "decimal option"
  mi_percent_complete :: "decimal option"
  mi_depreciation :: "decimal option"
  mi_construction_type :: "string option"
  mi_basement_raw :: "string option"
  mi_basement :: "string option"
  mi_pool :: "string option"

text \<open>
  \<^verbatim>\<open>parse_main_improvement(soup)\<close>; \<open>mi_tbl\<close> is the table that
  \<^verbatim>\<open>_resolve_main_improvement_table(soup) or _find_best_main_by_content(soup)\<close> finds.
  Without a table the function returns \<^verbatim>\<open>{}\<close>, here \<open>None\<close>; so it does when every value
  of the record is \<^verbatim>\<open>None\<close>.
\<close>

definition main_improvement_of :: "(string \<rightharpoonup> string) \<Rightarrow> main_improvement" where
  "main_improvement_of kv =
     \<lparr>mi_building_class = none_if_empty (kv_get kv ''building class''),
      mi_year_built = to_num (Some (get_any kv [''year built'', ''yr built'', ''built''])),
      mi_effective_year_built =
        to_num (Some (get_any kv [''effective year built'', ''eff year built'', ''eff yr''])),
      mi_desirability = none_if_empty (kv_get kv ''desirability''),
      mi_desirability_raw = none_if_empty (kv_get kv ''desirability''),
      mi_desirability_id = to_num (Some (get_any kv [''desirability id'', ''desirability code''])),
      mi_living_area_sqft =
        to_sqft (Some (get_any kv [''living area'', ''liv area'', ''area living''])),
      mi_total_living_area =
        to_sqft (Some (get_any kv [''total living area'', ''total liv area'',
                                   ''living area total'', ''total_living_area''])),
      mi_total_area_sqft = to_sqft (Some (get_any kv [''total area'', ''area total''])),
      mi_percent_complete =
        to_num (Some (get_any kv [''% complete'', ''percent complete'', ''complete %''])),
      mi_depreciation =
        pct_to_num (Some (get_any kv [''depreciation'', ''depr %'', ''depreciation %''])),
      mi_construction_type =
        none_if_empty (get_any kv [''construction type'', ''constr type'', ''construction'']),
      mi_basement_raw = none_if_empty (get_any kv [''basement'']),
      mi_basement = none_if_empty (map_yn_to_none (Some (get_any kv [''basement'']))),
      mi_pool = none_if_empty (map_yn_to_none (Some (get_any kv [''pool''])))\<rparr>"

definition all_none :: "main_improvement \<Rightarrow> bool" where
  "all_none m =
     (mi_building_class m = None \<and> mi_year_built m = None \<and> mi_effective_year_built m = None \<and>
      mi_desirability m = None \<and> mi_desirability_raw m = None \<and> mi_desirability_id m = None \<and>
      mi_living_area_sqft m = None \<and> mi_total_living_area m = None \<and>
      mi_total_area_sqft m = None \<and> mi_percent_complete m = None \<and> mi_depreciation m = None \<and>
      mi_construction_type m = None \<and> mi_basement_raw m = None \<and> mi_basement m = None \<and>
      mi_pool m = None)"

definition parse_main_improvement :: "node option \<Rightarrow> main_improvement option" where
  "parse_main_improvement mi_tbl =
     (case mi_tbl of
        None \<Rightarrow> None
      | Some tbl \<Rightarrow>
          (let out = main_improvement_of (parse_keyvalue_table tbl) in
           if all_none out then None else Some out))"

text \<open>
  The main-improvement table of the scenario, with a header row and a data row, and the
  same data laid out as label/value rows.
\<close>

definition header_row_table :: node where
  "header_row_table =
     Elem ''table'' []
       [tr [th ''Year Built'', th ''Effective Year Built'', th ''Desirability'',
            th ''Total Living Area''],
        tr [td ''1998'', td ''2001'', td ''GOOD'', td ''2,115 sqft'']]"

definition label_value_table :: node where
  "label_value_table =
     Elem ''table'' []
       [tr [th ''Year Built'', td ''1998''],
        tr [th ''Effective Year Built'', td ''2001''],
        tr [th ''Desirability'', td ''GOOD''],
        tr [th ''Total Living Area'', td ''2,115 sqft'']]"

section \<open>Additional improvements: \<^verbatim>\<open>scraper/dcad/parse_detail.py\<close>\<close>








text \<open>
  The local function \<^verbatim>\<open>idx\<close>: the first key, in the order given, that is contained in
  some header, with the position of the first such header.
  \<^verbatim>\<open>
    def idx(*keys):
        for k in keys:
            for i, h in enumerate(headers):
                if k in h:
                    return i
        return None
  \<close>
\<close>

fun first_index :: "('a \<Rightarrow> bool) \<Rightarrow> 'a list \<Rightarrow> nat option" where
  "first_index P [] = None"
| "first_index P (x # xs) = (if P x then Some 0 else map_option Suc (first_index P xs))"

fun idx :: "string list \<Rightarrow> string list \<Rightarrow> nat option" where
  "idx headers [] = None"
| "idx headers (k # ks) =
     (case first_index (\<lambda>h. contains h k) headers of
        Some i \<Rightarrow> Some i
      | None \<Rightarrow> idx headers ks)"



















section \<open>Secondary improvements: \<^verbatim>\<open>dcad-scraper/scraper/dcad/parse_detail.py\<close>\<close>














section \<open>Deduplication of search results\<close>



lemma dedupe_loop_first_seen:
  "dedupe_loop seen uniq rs = uniq @ first_seen (\<lambda>a. a \<noteq> []) seen rs"
  by (induction rs arbitrary: seen uniq) (simp_all add: Let_def)

lemma backup_dedupe_loop_first_seen:
  "backup_dedupe_loop seen out rs = out @ first_seen (\<lambda>a. True) seen rs"
  by (induction rs arbitrary: seen out) simp_all

lemma first_seen_not_seen: "r \<in> set (first_seen ok seen rs) \<Longrightarrow> account_id r \<notin> seen"
  by (induction rs arbitrary: seen) (auto split: if_splits)

lemma first_seen_ids:
  "account_id ` set (first_seen ok seen rs) = {a \<in> account_id ` set rs. ok a \<and> a \<notin> seen}"
  by (induction rs arbitrary: seen) auto

lemma first_seen_distinct: "distinct (map account_id (first_seen ok seen rs))"
  by (induction rs arbitrary: seen) (auto dest: first_seen_not_seen)

lemma filter_shifted:
  "filter (\<lambda>(i, x). ok (account_id x) \<and>
                      account_id x \<notin> seen \<union> account_id ` set (take i (r # rs)))
          (map (\<lambda>(i, x). (Suc i, x)) zs) =
   map (\<lambda>(i, x). (Suc i, x))
       (filter (\<lambda>(i, x). ok (account_id x) \<and>
                  account_id x \<notin> insert (account_id r) seen \<union> account_id ` set (take i rs)) zs)"
  by (induction zs) auto

lemma filter_seen_irrelevant:
  assumes "\<not> (ok (account_id r) \<and> account_id r \<notin> seen)"
  shows "filter (\<lambda>(i, x). ok (account_id x) \<and>
                  account_id x \<notin> insert (account_id r) seen \<union> account_id ` set (take i rs)) zs =
         filter (\<lambda>(i, x). ok (account_id x) \<and>
                  account_id x \<notin> seen \<union> account_id ` set (take i rs)) zs"
  using assms by (intro filter_cong) auto

lemma first_seen_filter:
  "first_seen ok seen rs =
     map snd (filter (\<lambda>(i, r). ok (account_id r) \<and>
                                account_id r \<notin> seen \<union> account_id ` set (take i rs))
                     (zip [0..<length rs] rs))"
proof (induction rs arbitrary: seen)
  case Nil
  show ?case by simp
next
  case (Cons r rs)
  have shift: "zip [0..<length (r # rs)] (r # rs) =
      (0, r) # map (\<lambda>(i, x). (Suc i, x)) (zip [0..<length rs] rs)"
    by (simp add: upt_conv_Cons map_Suc_upt [symmetric] zip_map1 del: upt_Suc)
  have snd_shift: "map snd (map (\<lambda>(i, x). (Suc i, x)) zs) = map snd zs"
    for zs :: "(nat \<times> row) list"
    by (induction zs) auto
  show ?case
  proof (cases "ok (account_id r) \<and> account_id r \<notin> seen")
    case True
    have "first_seen ok seen (r # rs) = r # first_seen ok (insert (account_id r) seen) rs"
      using True by simp
    also have "\<dots> = r # map snd (filter (\<lambda>(i, x). ok (account_id x) \<and>
                  account_id x \<notin> insert (account_id r) seen \<union> account_id ` set (take i rs))
                  (zip [0..<length rs] rs))"
      by (simp only: Cons.IH [of "insert (account_id r) seen"])
    finally show ?thesis
      unfolding shift filter.simps filter_shifted snd_shift
      using True by simp
  next
    case False
    have "first_seen ok seen (r # rs) = first_seen ok seen rs"
      using False by auto
    also have "\<dots> = map snd (filter (\<lambda>(i, x). ok (account_id x) \<and>
                  account_id x \<notin> insert (account_id r) seen \<union> account_id ` set (take i rs))
                  (zip [0..<length rs] rs))"
      using filter_seen_irrelevant [of ok r seen rs "zip [0..<length rs] rs", OF False]
      by (simp only: Cons.IH [of seen])
    finally show ?thesis
      unfolding shift filter.simps filter_shifted snd_shift
      using False by auto
  qed
qed

lemma first_seen_first_occurrences: "first_seen ok {} rs = first_occurrences ok rs"
  by (simp add: first_seen_filter [of ok "{}" rs] first_occurrences_def)

lemma first_seen_cong:
  "\<forall>r\<in>set rs. ok (account_id r) = ok' (account_id r) \<Longrightarrow>
   first_seen ok seen rs = first_seen ok' seen rs"
  by (induction rs arbitrary: seen) auto

text \<open>
  C5. For every list of accumulated result rows, possibly with repeated account ids, the
  rows returned by the paginated search hold each account id of the list exactly once,
  keep for each id the row seen first, and keep these rows in the order in which they were
  first seen. A row whose \<^verbatim>\<open>account_id\<close> field is the empty placeholder that
  \<^verbatim>\<open>_parse_results_table\<close> writes for a link without an \<^verbatim>\<open>ID\<close> parameter carries no
  account id and is left out; on rows that all carry an id the guarded loop and the loop
  of the backup copy return the same list.
\<close>

theorem dedupe_first_seen:
  "((\<forall>r\<in>set all_rows. account_id r \<noteq> []) \<longrightarrow>
      distinct (map account_id (dedupe all_rows)) \<and>
      account_id ` set (dedupe all_rows) = account_id ` set all_rows \<and>
      dedupe all_rows = first_occurrences (\<lambda>a. True) all_rows \<and>
      dedupe all_rows = backup_dedupe all_rows) \<and>
   distinct (map account_id (dedupe all_rows)) \<and>
   account_id ` set (dedupe all_rows) = account_id ` set all_rows - {[]} \<and>
   dedupe all_rows = first_occurrences (\<lambda>a. a \<noteq> []) all_rows \<and>
   distinct (map account_id (backup_dedupe all_rows)) \<and>
   account_id ` set (backup_dedupe all_rows) = account_id ` set all_rows \<and>
   backup_dedupe all_rows = first_occurrences (\<lambda>a. True) all_rows"
proof -
  have d: "dedupe all_rows = first_seen (\<lambda>a. a \<noteq> []) {} all_rows"
    by (simp add: dedupe_def dedupe_loop_first_seen)
  have b: "backup_dedupe all_rows = first_seen (\<lambda>a. True) {} all_rows"
    by (simp add: backup_dedupe_def backup_dedupe_loop_first_seen)
  have ids: "account_id ` set (dedupe all_rows) = account_id ` set all_rows - {[]}"
    unfolding d first_seen_ids by auto
  have bids: "account_id ` set (backup_dedupe all_rows) = account_id ` set all_rows"
    unfolding b first_seen_ids by auto
  have dis: "distinct (map account_id (dedupe all_rows))"
    unfolding d by (rule first_seen_distinct)
  have bdis: "distinct (map account_id (backup_dedupe all_rows))"
    unfolding b by (rule first_seen_distinct)
  have occ: "dedupe all_rows = first_occurrences (\<lambda>a. a \<noteq> []) all_rows"
    unfolding d by (rule first_seen_first_occurrences)
  have bocc: "backup_dedupe all_rows = first_occurrences (\<lambda>a. True) all_rows"
    unfolding b by (rule first_seen_first_occurrences)
  have same: "dedupe all_rows = backup_dedupe all_rows"
    if "\<forall>r\<in>set all_rows. account_id r \<noteq> []"
    unfolding d b by (rule first_seen_cong) (use that in simp)
  have "account_id ` set (dedupe all_rows) = account_id ` set all_rows"
    if "\<forall>r\<in>set all_rows. account_id r \<noteq> []"
    unfolding same [OF that] by (rule bids)
  with same bocc ids bids dis bdis occ show ?thesis
    by metis
qed

theorem dedupe_first_seen_witness:
  "list_all (\<lambda>r. account_id r \<noteq> []) repeated_rows \<and>
   dedupe repeated_rows = take 2 repeated_rows \<and>
   backup_dedupe repeated_rows = take 2 repeated_rows \<and>
   account_id ` set (dedupe repeated_rows) = account_id ` set repeated_rows"
proof -
  have ids: "\<forall>r\<in>set repeated_rows. account_id r \<noteq> []"
    by (simp add: repeated_rows_def)
  have d: "dedupe repeated_rows = take 2 repeated_rows"
    by (simp add: repeated_rows_def dedupe_def Let_def)
  from dedupe_first_seen [of repeated_rows, THEN conjunct1, THEN mp, OF ids]
  have "dedupe repeated_rows = backup_dedupe repeated_rows"
    and "account_id ` set (dedupe repeated_rows) = account_id ` set repeated_rows"
    by blast+
  with ids d show ?thesis by (simp add: list_all_iff)
qed

text \<open>
  A result row whose link carries no \<^verbatim>\<open>ID\<close> parameter gets the placeholder \<^verbatim>\<open>""\<close> in
  the field \<^verbatim>\<open>account_id\<close>; the search returns no row for it.
\<close>

lemma dedupe_skips_placeholder:
  "dedupe [\<lparr>account_id = [], address = ''100 MAIN ST'', city = ''DALLAS'',
            owner = ''DOE JOHN'', total_value = ''$100,000'', row_type = ''RESIDENTIAL'',
            detail_url = ''https://www.dallascad.org/AcctDetailRes.aspx''\<rparr>] = []"
  by (simp add: dedupe_def)

section \<open>Termination of the paginated search\<close>






section \<open>The tri-state normalizer\<close>






























section \<open>The area backfill chain\<close>














section \<open>Jurisdiction-keyed maps\<close>

lemma fill_foldl_apply:
  fixes b :: "'k \<rightharpoonup> 'v"
  shows "foldl (\<lambda>b k. if k \<in> dom b then b else b(k \<mapsto> v)) b ks x =
     (if x \<in> dom b then b x else if x \<in> set ks then Some v else None)"
proof -
  define f where "f = (\<lambda>(b :: 'k \<rightharpoonup> 'v) k. if k \<in> dom b then b else b(k \<mapsto> v))"
  have "foldl f b ks x = (if x \<in> dom b then b x else if x \<in> set ks then Some v else None)"
  proof (induction ks arbitrary: b)
    case Nil
    show ?case by (auto simp: domIff)
  next
    case (Cons k ks)
    have step: "foldl f b (k # ks) x =
        (if x \<in> dom (f b k) then f b k x else if x \<in> set ks then Some v else None)"
      by (simp only: foldl_Cons Cons.IH)
    show ?case
    proof (cases "k \<in> dom b")
      case True
      then have "f b k = b" by (simp add: f_def)
      with True show ?thesis unfolding step by auto
    next
      case False
      then have "f b k = b(k \<mapsto> v)" by (simp add: f_def)
      with False show ?thesis unfolding step by auto
    qed
  qed
  then show ?thesis by (simp only: f_def)
qed

lemma fill_missing_apply:
  "fill_missing b k = (if k \<in> dom b then b k
                       else if k \<in> set canonical_jurisdictions then Some na_bucket else None)"
  unfolding fill_missing_def by (rule fill_foldl_apply)

lemma fill_missing_dom: "dom (fill_missing b) = dom b \<union> set canonical_jurisdictions"
proof (rule set_eqI)
  fix x
  show "x \<in> dom (fill_missing b) \<longleftrightarrow> x \<in> dom b \<union> set canonical_jurisdictions"
    by (cases "x \<in> dom b"; cases "x \<in> set canonical_jurisdictions";
        simp add: domIff fill_missing_apply)
qed

lemma td_or_th:
  assumes "find_all [''th'', ''td''] r \<noteq> []"
  shows "(if find_all [''td''] r \<noteq> [] then find_all [''td''] r else find_all [''th''] r) \<noteq> []"
proof -
  from assms obtain d where d: "d \<in> set (descendants r)" "is_tag [''th'', ''td''] d"
    by (auto simp: find_all_def filter_empty_conv)
  from d(2) have "is_tag [''td''] d \<or> is_tag [''th''] d"
    by (cases d) auto
  with d(1) have "find_all [''td''] r \<noteq> [] \<or> find_all [''th''] r \<noteq> []"
    by (auto simp: find_all_def filter_empty_conv)
  then show ?thesis by auto
qed

lemma est_row_step_total:
  assumes "find_all [''th'', ''td''] r \<noteq> []"
  shows "\<exists>st'. est_row_step r st = Inr st'"
proof -
  from td_or_th [OF assms] obtain c cs where
    "rev (if find_all [''td''] r \<noteq> [] then find_all [''td''] r else find_all [''th''] r) = c # cs"
    by (cases "rev (if find_all [''td''] r \<noteq> [] then find_all [''td''] r
                    else find_all [''th''] r)") auto
  then show ?thesis
    unfolding est_row_step_def Let_def by simp
qed

lemma est_named_rows_total:
  "\<forall>r\<in>set rs. find_all [''th'', ''td''] r \<noteq> [] \<Longrightarrow> \<exists>res. est_named_rows rs st = Inr res"
proof (induction rs arbitrary: st)
  case Nil
  then show ?case by simp
next
  case (Cons r rs)
  then obtain st' where "est_row_step r st = Inr st'"
    using est_row_step_total [of r st] by auto
  with Cons show ?case by simp
qed

lemma est_rows_cells: "\<forall>r\<in>set (est_rows t). find_all [''th'', ''td''] r \<noteq> []"
  by (simp add: est_rows_def)

lemma foldl_upd_dom:
  "dom (foldl (\<lambda>m (i, c). m(k c \<mapsto> v i c)) m0 ics) = dom m0 \<union> k ` snd ` set ics"
  by (induction ics arbitrary: m0) (auto simp: case_prod_unfold)

lemma snd_zip_upt: "snd ` set (zip [0..<length xs] xs) = set xs"
  by (metis length_upt map_snd_zip minus_nat.diff_0 set_map)

lemma exemption_out_dom:
  "dom (exemption_out col_headers row1 row2 row3) = exemption_key ` set col_headers"
  unfolding exemption_out_def
  by (subst foldl_upd_dom) (simp add: snd_zip_upt)

lemma est_buckets_dom:
  "dom (est_buckets named_rows col_headers) = bucket_for ` set col_headers"
  unfolding est_buckets_def Let_def
  by (subst foldl_upd_dom) (simp add: snd_zip_upt)

lemma short_list:
  "length xs < 3 \<Longrightarrow> xs = [] \<or> (\<exists>a. xs = [a]) \<or> (\<exists>a b. xs = [a, b])"
  by (cases xs; simp; rename_tac a as; case_tac as; simp; rename_tac b bs; case_tac bs; simp)

lemma long_list: "3 \<le> length xs \<Longrightarrow> \<exists>a b c ys. xs = a # b # c # ys"
  by (cases xs; simp; rename_tac a as; case_tac as; simp; rename_tac b bs; case_tac bs; simp)

lemma parse_estimated_taxes_short:
  assumes "length (est_rows t) < 3"
  shows "parse_estimated_taxes (Some t) total_span = Inr (Map.empty, ''N/A'', ''OK'')"
  using short_list [OF assms]
  by (auto simp: parse_estimated_taxes_def)

lemma parse_estimated_taxes_full:
  assumes "3 \<le> length (est_rows t)"
  shows "\<exists>named_rows total.
           parse_estimated_taxes (Some t) total_span =
             Inr (fill_missing (est_buckets named_rows (est_col_headers t)), total, ''OK'')"
proof -
  from long_list [OF assms] obtain r0 r1 r2 others where
    rows: "est_rows t = r0 # r1 # r2 # others"
    by blast
  have "\<forall>r\<in>set (r1 # r2 # others). find_all [''th'', ''td''] r \<noteq> []"
    using est_rows_cells [of t] unfolding rows by simp
  from est_named_rows_total [OF this] obtain res where
    "est_named_rows (r1 # r2 # others)
       (Map.empty, case total_span of None \<Rightarrow> None | Some sp \<Rightarrow> Some (cell_text sp)) =
     Inr res"
    by blast
  then have "parse_estimated_taxes (Some t) total_span =
      Inr (fill_missing (est_buckets (fst res) (est_col_headers t)), num_or_na (snd res), ''OK'')"
    by (cases res) (simp add: parse_estimated_taxes_def est_col_headers_def rows Let_def
                         del: est_named_rows.simps)
  then show ?thesis by blast
qed

lemma parse_exemptions_sections_dom:
  "dom (parse_exemptions_sections (Some found)) = exemption_key ` set (exemption_col_headers found)"
  by (simp add: parse_exemptions_sections_def exemption_col_headers_def exemption_out_dom Let_def
           split: list.splits)

text \<open>
  C2. When the estimated-taxes table is found and has at least three rows with cells, the
  estimated-taxes map holds all six canonical jurisdiction keys: the buckets of the
  table's columns, and an all-\<^verbatim>\<open>N/A\<close> entry for each canonical key that no column
  gives. When the table is missing or shorter, the map is empty. The exemptions map is
  never completed: its keys are exactly the column headers of the exemptions table
  (lower case, spaces as underscores), and it is empty without a table.
\<close>

theorem jurisdiction_maps:
  "parse_estimated_taxes None total_span = Inr (Map.empty, ''N/A'', ''OK'') \<and>
   (length (est_rows t) < 3 \<longrightarrow>
      parse_estimated_taxes (Some t) total_span = Inr (Map.empty, ''N/A'', ''OK'')) \<and>
   (3 \<le> length (est_rows t) \<longrightarrow>
      (\<exists>buckets total.
         parse_estimated_taxes (Some t) total_span = Inr (buckets, total, ''OK'') \<and>
         set canonical_jurisdictions \<subseteq> dom buckets \<and>
         dom buckets = bucket_for ` set (est_col_headers t) \<union> set canonical_jurisdictions \<and>
         (\<forall>k. k \<in> set canonical_jurisdictions \<and> k \<notin> bucket_for ` set (est_col_headers t)
              \<longrightarrow> buckets k = Some na_bucket))) \<and>
   parse_exemptions_sections None = Map.empty \<and>
   dom (parse_exemptions_sections (Some found)) =
     exemption_key ` set (exemption_col_headers found)"
proof -
  have full: "\<exists>buckets total.
         parse_estimated_taxes (Some t) total_span = Inr (buckets, total, ''OK'') \<and>
         set canonical_jurisdictions \<subseteq> dom buckets \<and>
         dom buckets = bucket_for ` set (est_col_headers t) \<union> set canonical_jurisdictions \<and>
         (\<forall>k. k \<in> set canonical_jurisdictions \<and> k \<notin> bucket_for ` set (est_col_headers t)
              \<longrightarrow> buckets k = Some na_bucket)"
    if "3 \<le> length (est_rows t)"
  proof -
    from parse_estimated_taxes_full [OF that, of total_span] obtain named_rows total where
      res: "parse_estimated_taxes (Some t) total_span =
              Inr (fill_missing (est_buckets named_rows (est_col_headers t)), total, ''OK'')"
      by blast
    let ?b = "fill_missing (est_buckets named_rows (est_col_headers t))"
    have "dom ?b = bucket_for ` set (est_col_headers t) \<union> set canonical_jurisdictions"
      by (simp add: fill_missing_dom est_buckets_dom)
    moreover have "?b k = Some na_bucket"
      if "k \<in> set canonical_jurisdictions" "k \<notin> bucket_for ` set (est_col_headers t)" for k
      using that by (simp add: fill_missing_apply est_buckets_dom)
    ultimately show ?thesis
      using res by blast
  qed
  have none: "parse_estimated_taxes None total_span = Inr (Map.empty, ''N/A'', ''OK'')"
    by (simp add: parse_estimated_taxes_def)
  have ex_none: "parse_exemptions_sections None = Map.empty"
    by (simp add: parse_exemptions_sections_def)
  show ?thesis
    using none ex_none full parse_estimated_taxes_short [of t total_span]
      parse_exemptions_sections_dom [of found]
    by blast
qed

theorem jurisdiction_maps_witness:
  "3 \<le> length (est_rows two_column_estimated_taxes) \<and>
   (\<exists>buckets total.
      parse_estimated_taxes (Some two_column_estimated_taxes) None = Inr (buckets, total, ''OK'') \<and>
      set canonical_jurisdictions \<subseteq> dom buckets) \<and>
   length (est_rows (tr [])) < 3 \<and>
   parse_estimated_taxes (Some (tr [])) None = Inr (Map.empty, ''N/A'', ''OK'')"
proof -
  have long: "3 \<le> length (est_rows two_column_estimated_taxes)"
    by code_simp
  have short: "length (est_rows (tr [])) < 3"
    by code_simp
  note full = jurisdiction_maps [of None two_column_estimated_taxes two_column_exemptions,
      THEN conjunct2, THEN conjunct2, THEN conjunct1, rule_format, OF long]
  note few = jurisdiction_maps [of None "tr []" two_column_exemptions,
      THEN conjunct2, THEN conjunct1, rule_format, OF short]
  from full obtain buckets total where
    "parse_estimated_taxes (Some two_column_estimated_taxes) None = Inr (buckets, total, ''OK'')"
    "set canonical_jurisdictions \<subseteq> dom buckets"
    by blast
  then have "\<exists>buckets total.
      parse_estimated_taxes (Some two_column_estimated_taxes) None = Inr (buckets, total, ''OK'') \<and>
      set canonical_jurisdictions \<subseteq> dom buckets"
    by blast
  with long short few show ?thesis
    by (intro conjI)
qed

text \<open>
  A page without an estimated-taxes table gives the empty estimated-taxes map, and an
  exemptions table with the columns City and School gives an exemptions map without the
  key \<^verbatim>\<open>county\<close>: reading a canonical key of either map fails.
\<close>

theorem jurisdiction_maps_not_completed:
  "parse_estimated_taxes None None = Inr (Map.empty, ''N/A'', ''OK'') \<and>
   parse_exemptions_sections (Some two_column_exemptions) ''city'' =
     Some \<lparr>ex_taxing_jurisdiction = ''DALLAS'', ex_homestead_exemption = ''$60,000'',
           ex_taxable_value = ''$240,000''\<rparr> \<and>
   parse_exemptions_sections (Some two_column_exemptions) ''county'' = None"
proof -
  have "parse_exemptions_sections (Some two_column_exemptions) ''city'' =
     Some \<lparr>ex_taxing_jurisdiction = ''DALLAS'', ex_homestead_exemption = ''$60,000'',
           ex_taxable_value = ''$240,000''\<rparr>"
    by code_simp
  moreover have "parse_exemptions_sections (Some two_column_exemptions) ''county'' = None"
    by code_simp
  ultimately show ?thesis
    by (simp add: parse_estimated_taxes_def)
qed

section \<open>Currency strings\<close>

























section \<open>The main improvement scenario\<close>

lemma map_yn_to_none_nonempty: "map_yn_to_none s \<noteq> []"
  by (cases s) (simp_all add: map_yn_to_none_def Let_def)

lemma parse_main_improvement_Some:
  "parse_main_improvement (Some tbl) = Some (main_improvement_of (parse_keyvalue_table tbl))"
proof -
  have "mi_basement (main_improvement_of kv) \<noteq> None" for kv
    by (simp add: main_improvement_of_def none_if_empty_def map_yn_to_none_nonempty)
  then have "\<not> all_none (main_improvement_of kv)" for kv
    unfolding all_none_def by blast
  then show ?thesis
    by (simp add: parse_main_improvement_def Let_def)
qed

text \<open>
  C9. Given an account detail page whose main-improvement section is a table of
  label/value rows \<^verbatim>\<open>Year Built | 1998\<close>, \<^verbatim>\<open>Effective Year Built | 2001\<close>,
  \<^verbatim>\<open>Desirability | GOOD\<close> and \<^verbatim>\<open>Total Living Area | 2,115 sqft\<close>, the parsed primary
  improvement record has \<^verbatim>\<open>year_built = 1998\<close>, \<^verbatim>\<open>effective_year_built = 2001\<close>,
  \<^verbatim>\<open>desirability = "GOOD"\<close> and \<^verbatim>\<open>total_living_area = 2115\<close>. Whatever the table, the
  function returns a record for it, and the record is built from the key/value pairs of
  the table.
\<close>

theorem main_improvement_label_value_rows:
  "parse_main_improvement (Some label_value_table) =
     Some \<lparr>mi_building_class = None, mi_year_built = Some (Finite False 1998 0),
           mi_effective_year_built = Some (Finite False 2001 0),
           mi_desirability = Some ''GOOD'', mi_desirability_raw = Some ''GOOD'',
           mi_desirability_id = None, mi_living_area_sqft = None,
           mi_total_living_area = Some (Finite False 2115 0),
           mi_total_area_sqft = None, mi_percent_complete = None,
           mi_depreciation = None, mi_construction_type = None,
           mi_basement_raw = None, mi_basement = Some ''NONE'',
           mi_pool = Some ''NONE''\<rparr> \<and>
   parse_main_improvement (Some tbl) = Some (main_improvement_of (parse_keyvalue_table tbl)) \<and>
   parse_main_improvement None = None"
proof -
  have "parse_main_improvement (Some label_value_table) =
     Some \<lparr>mi_building_class = None, mi_year_built = Some (Finite False 1998 0),
           mi_effective_year_built = Some (Finite False 2001 0),
           mi_desirability = Some ''GOOD'', mi_desirability_raw = Some ''GOOD'',
           mi_desirability_id = None, mi_living_area_sqft = None,
           mi_total_living_area = Some (Finite False 2115 0),
           mi_total_area_sqft = None, mi_percent_complete = None,
           mi_depreciation = None, mi_construction_type = None,
           mi_basement_raw = None, mi_basement = Some ''NONE'',
           mi_pool = Some ''NONE''\<rparr>"
    by code_simp
  then show ?thesis
    by (simp add: parse_main_improvement_Some) (simp add: parse_main_improvement_def)
qed

text \<open>
  With the header row \<^verbatim>\<open>Year Built | Effective Year Built | Desirability | Total Living Area\<close>
  and the data row \<^verbatim>\<open>1998 | 2001 | GOOD | 2,115 sqft\<close>, the cells of each row are paired
  two by two: the label \<^verbatim>\<open>year built\<close> gets the value \<^verbatim>\<open>Effective Year Built\<close> and the
  label \<^verbatim>\<open>desirability\<close> the value \<^verbatim>\<open>Total Living Area\<close>, so the record has no year
  built, no effective year built, no total living area, and the desirability
  \<^verbatim>\<open>Total Living Area\<close>.
\<close>

theorem main_improvement_header_row:
  "parse_main_improvement (Some header_row_table) =
     Some \<lparr>mi_building_class = None, mi_year_built = None,
           mi_effective_year_built = None,
           mi_desirability = Some ''Total Living Area'',
           mi_desirability_raw = Some ''Total Living Area'',
           mi_desirability_id = None, mi_living_area_sqft = None,
           mi_total_living_area = None, mi_total_area_sqft = None,
           mi_percent_complete = None, mi_depreciation = None,
           mi_construction_type = None, mi_basement_raw = None,
           mi_basement = Some ''NONE'', mi_pool = Some ''NONE''\<rparr>"
  by code_simp

section \<open>Rows of the improvement grids\<close>









end
